theory Spec2Isabelle
  imports Complex_Main
begin

section \<open>Arrays and errors\<close>

text \<open>
  A numpy array is its shape and its elements in row-major order. An array of shape
  \<open>[L, R, C]\<close> holds the element at level \<open>l\<close>, row \<open>r\<close>, column \<open>c\<close> at offset
  \<open>(l * R + r) * C + c\<close>. Integer arrays hold \<open>int\<close>, boolean arrays \<open>bool\<close>; float
  arrays hold \<open>rat\<close>, so true division, products and sums are the exact ones.
\<close>

record 'a ndarray =
  shape :: "nat list"
  data :: "'a list"

definition ndim :: "'a ndarray \<Rightarrow> nat" where
  "ndim a = length (shape a)"


text \<open>
  Exceptions, by class; a \<open>ValueError\<close> carries the fixed part of its message.
  \<open>NanResult\<close> is no exception of the source: it marks a result that would hold NaN,
  for which exact numbers have no value.
\<close>

datatype error =
    ValueError string
  | IndexError
  | OSError
  | PicklingError
  | NanResult
  | OtherException

section \<open>The conversion object\<close>

text \<open>
  The attributes of \<open>GridPolyConv\<close> (the logger apart). \<open>poly_idx\<close> is the tuple of
  polygon keys, of any type with equality.
\<close>

record 'k GridPolyConv =
  poly_idx :: "'k list"
  idx_ar :: "int ndarray"
  ar_count :: "int ndarray option"
  weight :: "rat ndarray option"
  mask_ar :: "bool ndarray"

text \<open>
  \<open>a.sum(0)\<close> of an array with at least one axis: the sum along the first axis. For
  the shape \<open>[L, R, C]\<close> the result has shape \<open>[R, C]\<close> and holds at offset \<open>k\<close> the sum
  of the \<open>L\<close> elements at offsets \<open>l * (R * C) + k\<close>. (It is only applied to arrays with
  three axes; on no axis at all numpy raises, and the array is returned as it is.)
\<close>

definition sum0 :: "'a::comm_monoid_add ndarray \<Rightarrow> 'a ndarray" where
  "sum0 a =
     (case shape a of
        [] \<Rightarrow> a
      | L # rest \<Rightarrow>
          (let n = prod_list rest
           in \<lparr>shape = rest,
               data = map (\<lambda>k. sum_list (map (\<lambda>l. data a ! (l * n + k)) [0..<L])) [0..<n]\<rparr>))"

text \<open>
  \<open>ar_count / denominator\<close>: true division of the integer counts, the denominator (one
  axis less) broadcast along the first axis. Only evaluated when no denominator is zero.
\<close>

definition true_divide :: "int ndarray \<Rightarrow> int ndarray \<Rightarrow> rat ndarray" where
  "true_divide c den =
     (let n = length (data den)
      in \<lparr>shape = shape c,
          data = map (\<lambda>j. of_int (data c ! j) / of_int (data den ! (j mod n)))
                   [0..<length (data c)]\<rparr>)"

text \<open>
  The guarded division: \<open>weight = zeros(shape); weight[nzdm] = ar_count[nzdm] /
  denominator[nzdm]\<close> with \<open>nzdm\<close> the broadcast mask \<open>denominator != 0\<close>. Where the
  denominator is zero nothing is divided and the weight stays 0.
\<close>

definition nonzero_divide :: "int ndarray \<Rightarrow> int ndarray \<Rightarrow> rat ndarray" where
  "nonzero_divide c den =
     (let n = length (data den)
      in \<lparr>shape = shape c,
          data = map (\<lambda>j. if data den ! (j mod n) \<noteq> 0
                            then of_int (data c ! j) / of_int (data den ! (j mod n))
                            else 0)
                   [0..<length (data c)]\<rparr>)"

text \<open>\<open>a == 0\<close>, elementwise.\<close>

definition eq_zero :: "int ndarray \<Rightarrow> bool ndarray" where
  "eq_zero a = \<lparr>shape = shape a, data = map (\<lambda>v. v = 0) (data a)\<rparr>"

text \<open>\<open>a[0]\<close>: the first slice along the first axis; \<open>IndexError\<close> when that axis is empty.\<close>

definition first_slice :: "'a ndarray \<Rightarrow> error + 'a ndarray" where
  "first_slice a =
     (case shape a of
        [] \<Rightarrow> Inl IndexError
      | L # rest \<Rightarrow>
          if L = 0 then Inl IndexError
          else Inr \<lparr>shape = rest, data = take (prod_list rest) (data a)\<rparr>)"

text \<open>
  The weights of \<open>__init__\<close>: \<open>denominator = ar_count.sum(0)\<close>; the plain division
  when \<open>(denominator != 0).all()\<close>, the guarded one otherwise.
\<close>

definition init_weight :: "int ndarray \<Rightarrow> rat ndarray" where
  "init_weight c =
     (let denominator = sum0 c
      in if list_all (\<lambda>d. d \<noteq> 0) (data denominator)
         then true_divide c denominator
         else nonzero_divide c denominator)"

text \<open>
  \<open>__init__(poly_idx, idx_ar, ar_count)\<close>. The arguments are typed: \<open>poly_idx\<close> is
  already a sequence and the arrays are integer numpy arrays, so the \<open>isinstance\<close> and
  dtype checks of the source pass. Integer sums do not overflow. With a two-axis
  \<open>idx_ar\<close> a given \<open>ar_count\<close> is ignored (the source logs an error and goes on).
\<close>

definition GridPolyConv_init ::
  "'k list \<Rightarrow> int ndarray \<Rightarrow> int ndarray option \<Rightarrow> error + 'k GridPolyConv" where
  "GridPolyConv_init p idx cnt =
     (if length p \<noteq> card (set p) then Inl (ValueError ''poly_idx values are not unique'')
      else if ndim idx = 2 then
        Inr \<lparr>poly_idx = p, idx_ar = idx, ar_count = None, weight = None,
             mask_ar = eq_zero idx\<rparr>
      else if ndim idx = 3 then
        (case cnt of
           None \<Rightarrow> Inl (ValueError ''ar_count must be specified if idx_ar is 3D'')
         | Some c \<Rightarrow>
             if shape c \<noteq> shape idx
             then Inl (ValueError ''ar_count shape must match idx_ar'')
             else
               (case first_slice idx of
                  Inl e \<Rightarrow> Inl e
                | Inr lev0 \<Rightarrow>
                    Inr \<lparr>poly_idx = p, idx_ar = idx, ar_count = Some c,
                         weight = Some (init_weight c), mask_ar = eq_zero lev0\<rparr>))
      else Inl (ValueError ''idx_ar ndim must be 2 or 3''))"




text \<open>\<open>np.testing.assert_array_equal\<close> on two arrays: passes when shapes and elements agree.\<close>

definition assert_array_equal :: "'a ndarray \<Rightarrow> 'a ndarray \<Rightarrow> bool" where
  "assert_array_equal a b = (shape a = shape b \<and> data a = data b)"

text \<open>
  The other operand of \<open>__eq__\<close> is any Python object: a \<open>GridPolyConv\<close>, or an object
  of another class, given by its class name (it fails the test of the class names, or
  has no \<open>poly_idx\<close> and fails the next test).
\<close>

datatype 'k pyobject = GridPolyConvObj "'k GridPolyConv" | OtherObj string

text \<open>
  \<open>__eq__\<close>: the class names, then \<open>poly_idx\<close>, then \<open>idx_ar\<close>; both branches of the
  \<open>try\<close> around the \<open>idx_ar\<close> comparison return, so the statements on \<open>ar_count\<close> that
  follow in the source are never executed and have no counterpart here.
\<close>

fun GridPolyConv_eq :: "'k GridPolyConv \<Rightarrow> 'k pyobject \<Rightarrow> bool" where
  "GridPolyConv_eq self (OtherObj cls) = False"
| "GridPolyConv_eq self (GridPolyConvObj other) =
     (if poly_idx self \<noteq> poly_idx other then False
      else if assert_array_equal (idx_ar self) (idx_ar other) then True
      else False)"

section \<open>Serialization\<close>

text \<open>
  \<open>__getstate__\<close> returns \<open>dict(self)\<close>, and \<open>__iter__\<close> yields the three entries
  \<open>poly_idx\<close>, \<open>idx_ar\<close>, \<open>ar_count\<close>: the pickled state. \<open>__setstate__\<close> passes them
  to \<open>__init__\<close> as keyword arguments, which builds the weights and the mask again.
\<close>

record 'k gpc_state =
  st_poly_idx :: "'k list"
  st_idx_ar :: "int ndarray"
  st_ar_count :: "int ndarray option"

definition getstate :: "'k GridPolyConv \<Rightarrow> 'k gpc_state" where
  "getstate self =
     \<lparr>st_poly_idx = poly_idx self, st_idx_ar = idx_ar self, st_ar_count = ar_count self\<rparr>"

definition setstate :: "'k gpc_state \<Rightarrow> error + 'k GridPolyConv" where
  "setstate state =
     GridPolyConv_init (st_poly_idx state) (st_idx_ar state) (st_ar_count state)"

text \<open>
  What a file holds: the pickle of a conversion object (its state); the pickle of an
  object of another class, given by the class name and by whether its instances take
  new attributes (a \<open>dict\<close> or a number does not); or bytes that do not unpickle (a
  truncated file). \<open>pickle.load\<close> creates the object and, for a conversion object,
  calls \<open>__setstate__\<close>; it returns whatever object the file holds, and raises on
  other bytes.
\<close>

datatype 'k file_content = Pickle "'k gpc_state" | OtherPickle string bool | Garbage

definition pickle_load :: "'k file_content \<Rightarrow> error + 'k pyobject" where
  "pickle_load content =
     (case content of
        Pickle state \<Rightarrow>
          (case setstate state of Inl e \<Rightarrow> Inl e | Inr obj \<Rightarrow> Inr (GridPolyConvObj obj))
      | OtherPickle cls d \<Rightarrow> Inr (OtherObj cls)
      | Garbage \<Rightarrow> Inl OtherException)"

text \<open>
  \<open>obj.logger = logger\<close> on the object a file holds: it raises \<open>AttributeError\<close> on an
  object that takes no new attribute.
\<close>

definition takes_logger :: "'k file_content \<Rightarrow> bool" where
  "takes_logger content =
     (case content of Pickle state \<Rightarrow> True | OtherPickle cls d \<Rightarrow> d | Garbage \<Rightarrow> False)"

text \<open>
  What \<open>pickle.dump\<close> does with an object is the pickle module's business, given here
  as the outcome for each object: it writes the pickle, raises \<open>PicklingError\<close>, or
  raises another exception.
\<close>

datatype dump_outcome = Dumped | RaisesPicklingError | RaisesOther

section \<open>The file system\<close>

text \<open>
  Directories by name, each with its entries in the order \<open>iterdir\<close> lists them; an
  entry is a regular file with its content, or something that is not a file (a
  subdirectory). In a read-only directory no file can be created, written or removed.
  A path \<open>dirname / name\<close> is the pair of the directory and the name.
\<close>

datatype 'k node = RegularFile "'k file_content" | NotAFile

type_synonym path = "string \<times> string"

record 'k filesystem =
  dirs :: "(string \<times> (string \<times> 'k node) list) list"
  readonly :: "string list"

definition is_dir :: "'k filesystem \<Rightarrow> string \<Rightarrow> bool" where
  "is_dir fs dirname = (map_of (dirs fs) dirname \<noteq> None)"

definition lookup_file :: "'k filesystem \<Rightarrow> path \<Rightarrow> 'k node option" where
  "lookup_file fs p =
     (case map_of (dirs fs) (fst p) of None \<Rightarrow> None | Some es \<Rightarrow> map_of es (snd p))"

text \<open>\<open>open(path, "rb")\<close> and reading the bytes.\<close>

definition open_rb :: "'k filesystem \<Rightarrow> path \<Rightarrow> error + 'k file_content" where
  "open_rb fs p =
     (case lookup_file fs p of Some (RegularFile content) \<Rightarrow> Inr content | _ \<Rightarrow> Inl OSError)"

text \<open>
  Replacing or adding one entry of an association list; removing one.
\<close>

fun update_entry :: "'a \<Rightarrow> 'b \<Rightarrow> ('a \<times> 'b) list \<Rightarrow> ('a \<times> 'b) list" where
  "update_entry k v [] = [(k, v)]"
| "update_entry k v (e # es) = (if fst e = k then (k, v) # es else e # update_entry k v es)"

definition delete_entry :: "'a \<Rightarrow> ('a \<times> 'b) list \<Rightarrow> ('a \<times> 'b) list" where
  "delete_entry k es = filter (\<lambda>e. fst e \<noteq> k) es"

text \<open>
  \<open>open(path, "wb")\<close> succeeds when the directory exists and is not read-only and the
  name is not taken by something that is not a file; the file then holds what is
  written to it (\<open>put_file\<close>).
\<close>

definition can_open_wb :: "'k filesystem \<Rightarrow> path \<Rightarrow> bool" where
  "can_open_wb fs p =
     (case map_of (dirs fs) (fst p) of
        None \<Rightarrow> False
      | Some es \<Rightarrow> fst p \<notin> set (readonly fs) \<and> map_of es (snd p) \<noteq> Some NotAFile)"

definition put_file :: "'k filesystem \<Rightarrow> path \<Rightarrow> 'k file_content \<Rightarrow> 'k filesystem" where
  "put_file fs p content =
     (case map_of (dirs fs) (fst p) of
        None \<Rightarrow> fs
      | Some es \<Rightarrow>
          fs\<lparr>dirs :=
               update_entry (fst p) (update_entry (snd p) (RegularFile content) es) (dirs fs)\<rparr>)"

text \<open>\<open>os.remove(path)\<close>: removes a regular file from a directory that is not read-only.\<close>

definition os_remove :: "'k filesystem \<Rightarrow> path \<Rightarrow> error + 'k filesystem" where
  "os_remove fs p =
     (case map_of (dirs fs) (fst p) of
        None \<Rightarrow> Inl OSError
      | Some es \<Rightarrow>
          if fst p \<in> set (readonly fs) then Inl OSError
          else (case map_of es (snd p) of
                  Some (RegularFile content) \<Rightarrow>
                    Inr (fs\<lparr>dirs := update_entry (fst p) (delete_entry (snd p) es) (dirs fs)\<rparr>)
                | _ \<Rightarrow> Inl OSError))"

text \<open>
  The statement \<open>with open(path, "wb") as f: pickle.dump(obj, f, protocol=4)\<close>, with
  what \<open>pickle.dump\<close> does with the object given by \<open>dump\<close>: when the file cannot be
  opened the file system is unchanged; when \<open>pickle.dump\<close> raises, the opened file is
  left without a pickle. The result is the exception raised, if any, and the file
  system afterwards.
\<close>

definition dump_to_file ::
  "('k GridPolyConv \<Rightarrow> dump_outcome) \<Rightarrow> 'k GridPolyConv \<Rightarrow> path \<Rightarrow> 'k filesystem \<Rightarrow>
     (error + unit) \<times> 'k filesystem" where
  "dump_to_file dump obj p fs =
     (if \<not> can_open_wb fs p then (Inl OSError, fs)
      else (case dump obj of
              Dumped \<Rightarrow> (Inr (), put_file fs p (Pickle (getstate obj)))
            | RaisesPicklingError \<Rightarrow> (Inl PicklingError, put_file fs p Garbage)
            | RaisesOther \<Rightarrow> (Inl OtherException, put_file fs p Garbage)))"

text \<open>
  \<open>to_pickle(path)\<close> is that statement; \<open>from_pickle(fname)\<close> opens the file and
  returns the object \<open>pickle.load\<close> gives, of whatever class.
\<close>

definition to_pickle ::
  "('k GridPolyConv \<Rightarrow> dump_outcome) \<Rightarrow> 'k GridPolyConv \<Rightarrow> path \<Rightarrow> 'k filesystem \<Rightarrow>
     (error + unit) \<times> 'k filesystem" where
  "to_pickle dump self p fs = dump_to_file dump self p fs"

definition from_pickle :: "'k filesystem \<Rightarrow> path \<Rightarrow> error + 'k pyobject" where
  "from_pickle fs p =
     (case open_rb fs p of Inl e \<Rightarrow> Inl e | Inr content \<Rightarrow> pickle_load content)"

section \<open>Cache files\<close>

text \<open>
  \<open>generate_cached_fname\<close>: \<open>"c"\<close>, the first 8 characters of the md5 hex digest of
  grid, keys and refine factor, with \<open>shapes\<close> the first 8 characters of the digest of
  the geometries, and \<open>".gpc"\<close>. The digests are hashlib's: they are arguments here.
\<close>

definition generate_cached_fname :: "string \<Rightarrow> string option \<Rightarrow> string" where
  "generate_cached_fname digest shapes_digest =
     (let prefix = ''c''; suffix = ''.gpc''; pt1 = take 8 digest
      in case shapes_digest of
           None \<Rightarrow> prefix @ pt1 @ suffix
         | Some d \<Rightarrow> prefix @ pt1 @ take 8 d @ suffix)"

text \<open>\<open>str.rfind\<close> of one character: the last position where it stands.\<close>

fun rfind :: "char \<Rightarrow> string \<Rightarrow> nat option" where
  "rfind ch [] = None"
| "rfind ch (x # xs) =
     (case rfind ch xs of
        Some i \<Rightarrow> Some (Suc i)
      | None \<Rightarrow> if x = ch then Some 0 else None)"

text \<open>
  pathlib's \<open>suffix\<close> of a file name: from the last dot on, unless the name has no dot,
  starts with its only dot or ends with a dot.
\<close>

definition pathlib_suffix :: "string \<Rightarrow> string" where
  "pathlib_suffix name =
     (case rfind CHR ''.'' name of
        None \<Rightarrow> []
      | Some i \<Rightarrow> if 0 < i \<and> i < length name - 1 then drop i name else [])"

definition is_file :: "'k node \<Rightarrow> bool" where
  "is_file n = (case n of RegularFile content \<Rightarrow> True | NotAFile \<Rightarrow> False)"

text \<open>
  \<open>list_dir\<close> of \<open>find_cache\<close>: the names of the regular files of the directory that
  start with \<open>c\<close> and have the suffix \<open>.gpc\<close>, in directory order. (\<open>take 1 name = "c"\<close>
  is \<open>name[0] == "c"\<close>; a directory entry has no empty name.)
\<close>

definition list_dir :: "(string \<times> 'k node) list \<Rightarrow> string list" where
  "list_dir entries =
     map fst (filter (\<lambda>f. is_file (snd f) \<and> take 1 (fst f) = ''c'' \<and>
                          pathlib_suffix (fst f) = ''.gpc'') entries)"

text \<open>
  \<open>find_cache(dirname, fname)\<close>, with the \<open>caching\<close> level of the enclosing call. The
  function ends without a \<open>return\<close> where no branch applies: None.
\<close>

definition find_cache :: "'k filesystem \<Rightarrow> int \<Rightarrow> string \<Rightarrow> string \<Rightarrow> path option" where
  "find_cache fs caching dirname fname =
     (case map_of (dirs fs) dirname of
        None \<Rightarrow> None
      | Some entries \<Rightarrow>
          if length (list_dir entries) = 0 then None
          else if fname \<in> set (list_dir entries) then Some (dirname, fname)
          else if caching = 1 then
            (let prefix = take 9 fname;
                 part_list_dir = filter (\<lambda>f. take 9 f = prefix) (list_dir entries)
             in case part_list_dir of [] \<Rightarrow> None | f # fs \<Rightarrow> Some (dirname, f))
          else None)"

section \<open>Building a conversion object, with the cache around it\<close>

text \<open>
  What one call of \<open>from_grid_vector\<close> gets from outside the repository: the
  environment variable, the directory of the vector file (\<open>Path(fname).parent\<close>), the
  attribute values of the features fiona reads in the grid's extent (or the exception
  reading raises), the two md5 digests, the index and count arrays that rasterio's
  \<open>rasterize\<close> and \<open>reproject\<close> produce in lines 350 to 449, and what \<open>pickle.dump\<close> does.
\<close>

record 'k externals =
  GRID_CACHE_DIR :: "string option"
  vector_dir :: string
  features :: "error + 'k list"
  digest :: string
  shapes_digest :: string
  digitized :: "int ndarray \<times> int ndarray option"
  pickle_dump :: "'k GridPolyConv \<Rightarrow> dump_outcome"

text \<open>
  \<open>if cache_grid_dir:\<close> holds for a variable that is set and not the empty string.
\<close>

definition cache_grid_dir :: "'k externals \<Rightarrow> string option" where
  "cache_grid_dir ext =
     (case GRID_CACHE_DIR ext of
        None \<Rightarrow> None
      | Some d \<Rightarrow> if d = [] then None else Some d)"

text \<open>
  Lines 327 to 338: where the cache file is looked for. The override directory alone
  when it is set (an error when it is not a directory); otherwise the directory of
  the vector file, then the current directory.
\<close>

definition lookup_cache ::
  "'k externals \<Rightarrow> int \<Rightarrow> string \<Rightarrow> 'k filesystem \<Rightarrow> error + path option" where
  "lookup_cache ext caching cache_fname fs =
     (case cache_grid_dir ext of
        Some d \<Rightarrow>
          if \<not> is_dir fs d then Inl OSError
          else Inr (find_cache fs caching d cache_fname)
      | None \<Rightarrow>
          (case find_cache fs caching (vector_dir ext) cache_fname of
             Some cache_path \<Rightarrow> Inr (Some cache_path)
           | None \<Rightarrow> Inr (find_cache fs caching ''.'' cache_fname)))"

text \<open>
  Lines 342 to 345, the body of the \<open>try\<close>: the file is opened and unpickled, the
  logger is set on the object and the object is returned, with no test of its class.
\<close>

definition load_cache :: "'k filesystem \<Rightarrow> path \<Rightarrow> error + 'k pyobject" where
  "load_cache fs p =
     (case open_rb fs p of
        Inl e \<Rightarrow> Inl e
      | Inr content \<Rightarrow>
          (case pickle_load content of
             Inl e \<Rightarrow> Inl e
           | Inr obj \<Rightarrow> if takes_logger content then Inr obj else Inl OtherException))"

text \<open>
  Lines 339 to 348: on a hit the object of the file is returned; any \<open>Exception\<close> of
  the \<open>try\<close> is logged and the file is removed with \<open>os.remove\<close>, which is inside the
  handler and under no \<open>try\<close> of its own. The three ways on: return the object,
  raise, or go on to build (with the file system as it is then).
\<close>

datatype 'k cache_read =
    CacheHit "'k pyobject"
  | CacheRaised error
  | CacheMiss "'k filesystem"

definition read_cache :: "path option \<Rightarrow> 'k filesystem \<Rightarrow> 'k cache_read" where
  "read_cache cache_path fs =
     (case cache_path of
        None \<Rightarrow> CacheMiss fs
      | Some p \<Rightarrow>
          (case load_cache fs p of
             Inr obj \<Rightarrow> CacheHit obj
           | Inl e \<Rightarrow>
               (case os_remove fs p of
                  Inl e' \<Rightarrow> CacheRaised e'
                | Inr fs' \<Rightarrow> CacheMiss fs')))"

text \<open>Lines 350 to 450: the arrays of the digitization, then the constructor.\<close>

definition build :: "'k externals \<Rightarrow> 'k list \<Rightarrow> error + 'k GridPolyConv" where
  "build ext keys =
     (case digitized ext of (idx, cnt) \<Rightarrow> GridPolyConv_init keys idx cnt)"

text \<open>
  \<open>write_cache(dirname)\<close> returns the "try again" flag: False when the file was
  written; a \<open>PicklingError\<close> is logged and raised again; any other \<open>Exception\<close> is
  logged and the flag is True.
\<close>

definition write_cache ::
  "'k externals \<Rightarrow> 'k GridPolyConv \<Rightarrow> string \<Rightarrow> string \<Rightarrow> 'k filesystem \<Rightarrow>
     (error + bool) \<times> 'k filesystem" where
  "write_cache ext obj cache_fname dirname fs =
     (case dump_to_file (pickle_dump ext) obj (dirname, cache_fname) fs of
        (Inr u, fs') \<Rightarrow> (Inr False, fs')
      | (Inl e, fs') \<Rightarrow> if e = PicklingError then (Inl e, fs') else (Inr True, fs'))"

text \<open>
  Lines 470 to 476: one attempt in the override directory when it is set; otherwise
  the directory of the vector file and, when that asks to try again, the current
  directory. Then the object is returned.
\<close>

definition store_cache ::
  "'k externals \<Rightarrow> 'k GridPolyConv \<Rightarrow> string \<Rightarrow> 'k filesystem \<Rightarrow>
     (error + 'k pyobject) \<times> 'k filesystem" where
  "store_cache ext obj cache_fname fs =
     (case cache_grid_dir ext of
        Some d \<Rightarrow>
          (case write_cache ext obj cache_fname d fs of
             (Inl e, fs') \<Rightarrow> (Inl e, fs')
           | (Inr u, fs') \<Rightarrow> (Inr (GridPolyConvObj obj), fs'))
      | None \<Rightarrow>
          (case write_cache ext obj cache_fname (vector_dir ext) fs of
             (Inl e, fs') \<Rightarrow> (Inl e, fs')
           | (Inr tryagain, fs') \<Rightarrow>
               if tryagain then
                 (case write_cache ext obj cache_fname ''.'' fs' of
                    (Inl e, fs'') \<Rightarrow> (Inl e, fs'')
                  | (Inr u, fs'') \<Rightarrow> (Inr (GridPolyConvObj obj), fs''))
               else (Inr (GridPolyConvObj obj), fs')))"

text \<open>
  \<open>from_grid_vector\<close>. The grid, the file name, the attribute and the layer reach the
  result only through the externals; \<open>refine\<close>, \<open>max_levels\<close> and \<open>caching\<close> are ints.
  \<open>keys\<close> is \<open>poly_idx\<close>, the sorted list of the distinct attribute values. The result is the
  object returned (the one built, or whatever object the cache file held) or the
  exception, and the file system afterwards.
\<close>

definition from_grid_vector ::
  "('k::linorder) externals \<Rightarrow> int \<Rightarrow> int \<Rightarrow> int \<Rightarrow> 'k filesystem \<Rightarrow>
     (error + 'k pyobject) \<times> 'k filesystem" where
  "from_grid_vector ext refine max_levels caching fs =
     (if refine < 1 then (Inl (ValueError ''refine must be >= 1''), fs)
      else if refine > 1 \<and> max_levels < 1
        then (Inl (ValueError ''max_levels must be >= 1''), fs)
      else
        (case features ext of
           Inl e \<Rightarrow> (Inl e, fs)
         | Inr vals \<Rightarrow>
             if vals = [] then (Inl (ValueError ''no features were found in grid extent''), fs)
             else
               (let keys = sorted_list_of_set (set vals)
                in if caching \<noteq> 0 then
                     (if caching \<noteq> 1 \<and> caching \<noteq> 2
                        then (Inl (ValueError ''caching must be 0, 1 or 2''), fs)
                      else
                        (let cache_fname =
                               generate_cached_fname (digest ext)
                                 (if caching = 1 then None else Some (shapes_digest ext))
                         in case lookup_cache ext caching cache_fname fs of
                              Inl e \<Rightarrow> (Inl e, fs)
                            | Inr cache_path \<Rightarrow>
                                (case read_cache cache_path fs of
                                   CacheHit obj \<Rightarrow> (Inr obj, fs)
                                 | CacheRaised e \<Rightarrow> (Inl e, fs)
                                 | CacheMiss fs1 \<Rightarrow>
                                     (case build ext keys of
                                        Inl e \<Rightarrow> (Inl e, fs1)
                                      | Inr obj \<Rightarrow> store_cache ext obj cache_fname fs1))))
                   else
                     (case build ext keys of
                        Inl e \<Rightarrow> (Inl e, fs)
                      | Inr obj \<Rightarrow> (Inr (GridPolyConvObj obj), fs)))))"

section \<open>Projecting values onto the grid\<close>

text \<open>
  Indexing a one-axis array of length \<open>n\<close> with an integer array (\<open>vals[idx_ar]\<close>):
  an index from \<open>-n\<close> up to \<open>n - 1\<close> is valid, a negative one counting from the end;
  any other index raises \<open>IndexError\<close>.
\<close>

definition valid_index :: "nat \<Rightarrow> int \<Rightarrow> bool" where
  "valid_index n i = (- int n \<le> i \<and> i < int n)"

definition gather :: "'a list \<Rightarrow> int list \<Rightarrow> error + 'a list" where
  "gather vals idx =
     (if list_all (valid_index (length vals)) idx
      then Inr (map (\<lambda>i. vals ! nat (i mod int (length vals))) idx)
      else Inl IndexError)"

text \<open>\<open>index.index(idx)\<close>: the first position of an element that is in the list.\<close>

fun index_of :: "'a list \<Rightarrow> 'a \<Rightarrow> nat" where
  "index_of [] x = 0"
| "index_of (y # ys) x = (if y = x then 0 else Suc (index_of ys x))"

text \<open>
  The rows of a two-axis array of shape \<open>[E, N]\<close> (\<open>for vals in values\<close>), and a
  two-axis array from rows.
\<close>

definition rows :: "'a ndarray \<Rightarrow> 'a list list" where
  "rows a =
     map (\<lambda>e. take (shape a ! 1) (drop (e * (shape a ! 1)) (data a))) [0..<shape a ! 0]"

text \<open>\<open>np.clip(x, lo, hi)\<close>.\<close>

definition clip :: "rat \<Rightarrow> rat \<Rightarrow> rat \<Rightarrow> rat" where
  "clip x lo hi = min (max x lo) hi"

text \<open>
  One value vector \<open>vals\<close> (the fill value first) on the grid: \<open>ar_values =
  vals[self.idx_ar]\<close>, which is the result without weights; with weights
  \<open>(ar_values * self.weight).sum(0)\<close>. (\<open>idx_ar\<close> and \<open>weight\<close> have one shape, by the
  constructor.) The result is the flat list of the cells.
\<close>

definition spread :: "'k GridPolyConv \<Rightarrow> rat list \<Rightarrow> error + rat list" where
  "spread self vals =
     (case gather vals (data (idx_ar self)) of
        Inl e \<Rightarrow> Inl e
      | Inr ar_values \<Rightarrow>
          (case weight self of
             None \<Rightarrow> Inr ar_values
           | Some w \<Rightarrow>
               Inr (data (sum0 \<lparr>shape = shape (idx_ar self),
                                 data = map2 (\<lambda>v x. v * x) ar_values (data w)\<rparr>))))"

text \<open>The shape of one output layer: the grid's rows and columns.\<close>

definition cell_shape :: "'k GridPolyConv \<Rightarrow> nat list" where
  "cell_shape self =
     (case weight self of None \<Rightarrow> shape (idx_ar self) | Some w \<Rightarrow> tl (shape (idx_ar self)))"

text \<open>The loop \<open>for vals in values: ar_l.append(...)\<close>: it ends at the first exception.\<close>

fun spread_rows :: "'k GridPolyConv \<Rightarrow> rat list list \<Rightarrow> error + rat list list" where
  "spread_rows self [] = Inr []"
| "spread_rows self (vals # rest) =
     (case spread self vals of
        Inl e \<Rightarrow> Inl e
      | Inr cells \<Rightarrow>
          (case spread_rows self rest of
             Inl e \<Rightarrow> Inl e
           | Inr others \<Rightarrow> Inr (cells # others)))"

text \<open>
  A masked array: the data and the mask, of one shape. \<open>ar += outside\<close> adds the
  two-axis array to every layer of \<open>ar\<close>; \<open>ar.mask = self.mask\<close> gives every layer
  the mask of the object (numpy assigns it flat, repeating it).
\<close>

record masked_array =
  ma_data :: "rat ndarray"
  ma_mask :: "bool ndarray"

definition add_outside :: "rat ndarray \<Rightarrow> rat list \<Rightarrow> rat ndarray" where
  "add_outside ar outside =
     \<lparr>shape = shape ar,
      data = map (\<lambda>j. data ar ! j + outside ! (j mod length outside)) [0..<length (data ar)]\<rparr>"

definition set_mask :: "rat ndarray \<Rightarrow> bool ndarray \<Rightarrow> masked_array" where
  "set_mask ar m =
     \<lparr>ma_data = ar,
      ma_mask = \<lparr>shape = shape ar,
                 data = map (\<lambda>j. data m ! (j mod length (data m))) [0..<length (data ar)]\<rparr>\<rparr>"

text \<open>
  Lines 593 to 599: with a fill value that is not zero and weights, \<open>outside = (1.0 -
  clip(weight.sum(0), 0.0, 1.0)) * fill\<close> is added; then the mask is set.
\<close>

definition finish :: "'k GridPolyConv \<Rightarrow> rat \<Rightarrow> rat ndarray \<Rightarrow> masked_array" where
  "finish self fill ar =
     (case weight self of
        None \<Rightarrow> set_mask ar (mask_ar self)
      | Some w \<Rightarrow>
          if fill \<noteq> 0 then
            (let weight2d = map (\<lambda>x. clip x 0 1) (data (sum0 w));
                 outside = map (\<lambda>x. (1 - x) * fill) weight2d
             in set_mask (add_outside ar outside) (mask_ar self))
          else set_mask ar (mask_ar self))"

text \<open>
  \<open>array_from_values(index, values, fill, enforce1d)\<close>. \<open>index\<close> is a list and \<open>values\<close>
  a numpy array of floats already, and \<open>fill\<close> a float. The checks come in the order of the source; then the values
  are put in the order of \<open>poly_idx\<close> when \<open>index\<close> is another list, the fill value is
  inserted in front, and the values are spread over the grid, for one value vector or
  for each row of a two-axis array (\<open>np.ma.stack\<close> raises on no rows at all).
\<close>

definition array_from_values ::
  "'k GridPolyConv \<Rightarrow> 'k list \<Rightarrow> rat ndarray \<Rightarrow> rat \<Rightarrow> bool \<Rightarrow> error + masked_array" where
  "array_from_values self index values fill enforce1d =
     (if ndim values \<noteq> 1 \<and> ndim values \<noteq> 2
        then Inl (ValueError ''expected values to have 1 or 2 dimensions'')
      else if length index \<noteq> last (shape values)
        then Inl (ValueError
               ''length of last dimension of values does not match index length'')
      else if enforce1d \<and> ndim values \<noteq> 1
        then Inl (ValueError ''values must have one dimension'')
      else if set index \<inter> set (poly_idx self) = {}
        then Inl (ValueError ''index is disjoint from poly_idx'')
      else if \<not> set (poly_idx self) \<subseteq> set index
        then Inl (ValueError ''index is not a superset of poly_idx'')
      else
        (let order = map (index_of index) (filter (\<lambda>idx. idx \<in> set index) (poly_idx self))
         in if ndim values = 1 then
              (let vals = (if index \<noteq> poly_idx self
                           then map (\<lambda>i. data values ! i) order
                           else data values)
               in case spread self (fill # vals) of
                    Inl e \<Rightarrow> Inl e
                  | Inr cells \<Rightarrow>
                      Inr (finish self fill \<lparr>shape = cell_shape self, data = cells\<rparr>))
            else
              (let vals_l = (if index \<noteq> poly_idx self
                             then map (\<lambda>row. map (\<lambda>i. row ! i) order) (rows values)
                             else rows values)
               in case spread_rows self (map (\<lambda>vals. fill # vals) vals_l) of
                    Inl e \<Rightarrow> Inl e
                  | Inr ar_l \<Rightarrow>
                      if ar_l = [] then Inl (ValueError ''need at least one array to stack'')
                      else Inr (finish self fill
                                 \<lparr>shape = length ar_l # cell_shape self,
                                  data = concat ar_l\<rparr>))))"




section \<open>The month window\<close>

text \<open>
  The month-selection mask of \<open>array_from_netcdf\<close>, from the start and end month
  numbers of the parsed window and the month of every timestamp. Python's \<open>%\<close> with
  a positive modulus is \<open>mod\<close> on \<open>int\<close>.
\<close>

definition month_sel :: "int \<Rightarrow> int \<Rightarrow> int list \<Rightarrow> bool list" where
  "month_sel start_month end_month month =
     (let num_months = end_month - start_month + 1
      in if num_months mod 12 = 0 then map (\<lambda>m. True) month
         else if num_months < 1
           then map (\<lambda>m. m \<ge> start_month \<or> m \<le> end_month) month
           else map (\<lambda>m. m \<ge> start_month \<and> m \<le> end_month) month)"

section \<open>Time statistics of a netCDF variable\<close>

text \<open>
  What \<open>array_from_netcdf\<close> works on after xarray has opened the source and selected
  the catchments of \<open>poly_idx\<close> (lines 693 to 751 are xarray's): the variable with a
  time axis, given by year and month of every timestamp and the array of shape
  \<open>[T, P]\<close> of its values (one row per timestamp, one column per key of \<open>poly_idx\<close>,
  in that order); or the values of a variable without a time axis.
\<close>

datatype variable =
    WithTime "(int \<times> int) list" "rat ndarray"
  | NoTime "rat ndarray"

text \<open>
  The parsed \<open>time_stats\<close> argument (lines 667 to 691): the window text when the
  argument has a \<open>:\<close>, the names of the statistics, and the month numbers of the
  window (1 and 12 without a window and for \<open>annual\<close>).
\<close>

record time_stats_spec =
  time_window :: "string option"
  time_stats_l :: "string list"
  start_month :: int
  end_month :: int

text \<open>\<open>if time_window:\<close> holds for a window text that is there and not empty.\<close>

definition has_window :: "time_stats_spec \<Rightarrow> bool" where
  "has_window spec = (case time_window spec of None \<Rightarrow> False | Some w \<Rightarrow> w \<noteq> [])"

text \<open>
  Lines 787 to 798: the year label of every timestamp. With a wrapping window the
  months before the start month count for the year before, and the label is the text
  \<open>Y-(Y+1)\<close>, given here by \<open>Y\<close>; otherwise it is the year. With a partial month
  selection the timestamps outside it get the bogus label (None).
\<close>

definition year_labels ::
  "int \<Rightarrow> int \<Rightarrow> (int \<times> int) list \<Rightarrow> bool list \<Rightarrow> int option list" where
  "year_labels start end time sel =
     (let has_partial_month_sel = \<not> list_all (\<lambda>b. b) sel
      in map (\<lambda>(t, s). if has_partial_month_sel \<and> \<not> s then None
                         else if start > end \<and> snd t < start then Some (fst t - 1)
                         else Some (fst t))
           (zip time sel))"

text \<open>
  \<open>groupby(year)\<close>: the groups are the distinct labels in ascending order (labels are
  compared as numbers; the source compares the texts \<open>Y-(Y+1)\<close>, which is the same order
  for years of equal length), without the bogus one (\<open>drop_sel(year=bogus)\<close>); a group
  holds the rows with its label. \<open>mean()\<close> of a group is the mean of every column.
\<close>

definition group_years :: "int option list \<Rightarrow> int list" where
  "group_years labels =
     sort (remdups (concat (map (\<lambda>l. case l of None \<Rightarrow> [] | Some y \<Rightarrow> [y]) labels)))"

definition group_rows :: "rat list list \<Rightarrow> int option list \<Rightarrow> int \<Rightarrow> rat list list" where
  "group_rows rs labels y = map fst (filter (\<lambda>(r, l). l = Some y) (zip rs labels))"

definition mean :: "rat list \<Rightarrow> rat" where
  "mean xs = sum_list xs / of_nat (length xs)"

definition column :: "rat list list \<Rightarrow> nat \<Rightarrow> rat list" where
  "column rs p = map (\<lambda>r. r ! p) rs"

definition column_means :: "nat \<Rightarrow> rat list list \<Rightarrow> rat list" where
  "column_means P rs = map (\<lambda>p. mean (column rs p)) [0..<P]"

definition groupby_mean :: "nat \<Rightarrow> rat list list \<Rightarrow> int option list \<Rightarrow> rat list list" where
  "groupby_mean P rs labels =
     map (\<lambda>y. column_means P (group_rows rs labels y)) (group_years labels)"

text \<open>
  Lines 806 to 810: \<open>weight = self.weight.sum((1, 2))\<close> is one number per level, the
  sum of the level's weights over the grid (the comment of the source announces the
  weight "for each catchment"); \<open>wvar = weight * var\<close> multiplies that vector of length
  \<open>L\<close> with every row of the values, of length \<open>P\<close>, by numpy's broadcasting: element
  by element when \<open>L = P\<close>, the single number with every element when \<open>L = 1\<close>, and
  otherwise an error (for \<open>P = 1\<close> numpy gives rows of length \<open>L\<close>, which xarray
  refuses for the size of the axis changes). Without weights \<open>weight = 1.0\<close>.
\<close>

definition level_mass :: "rat ndarray \<Rightarrow> rat list" where
  "level_mass w =
     (let n = shape w ! 1 * shape w ! 2
      in map (\<lambda>l. sum_list (map (\<lambda>k. data w ! (l * n + k)) [0..<n])) [0..<shape w ! 0])"

definition broadcast_mul :: "rat list \<Rightarrow> rat list \<Rightarrow> rat list" where
  "broadcast_mul w row =
     (if length w = length row then map2 (\<lambda>x v. x * v) w row
      else map (\<lambda>v. w ! 0 * v) row)"

definition weighted_var ::
  "'k GridPolyConv \<Rightarrow> nat \<Rightarrow> rat list list \<Rightarrow> error + rat list list" where
  "weighted_var self P rs =
     (case weight self of
        None \<Rightarrow> Inr rs
      | Some w \<Rightarrow>
          (let weight = level_mass w; L = length weight
           in if L = P \<or> L = 1
              then Inr (map (broadcast_mul weight) rs)
              else Inl (ValueError ''operands could not be broadcast together'')))"

text \<open>
  Lines 787 to 814 together: the years of the groups, \<open>var_mean\<close> with the mean row of
  every year, and \<open>wvar_year_total\<close> with the sum over the catchments of the year's
  mean weighted row.
\<close>

record year_totals =
  years :: "int list"
  var_mean :: "rat list list"
  wvar_year_total :: "rat list"

definition year_statistics ::
  "'k GridPolyConv \<Rightarrow> time_stats_spec \<Rightarrow> (int \<times> int) list \<Rightarrow> rat ndarray \<Rightarrow>
     error + year_totals" where
  "year_statistics self spec time var =
     (let sel = month_sel (start_month spec) (end_month spec) (map snd time);
          year = year_labels (start_month spec) (end_month spec) time sel;
          P = shape var ! 1
      in case weighted_var self P (rows var) of
           Inl e \<Rightarrow> Inl e
         | Inr wvar \<Rightarrow>
             Inr \<lparr>years = group_years year,
                  var_mean = groupby_mean P (rows var) year,
                  wvar_year_total = map sum_list (groupby_mean P wvar year)\<rparr>)"

text \<open>
  \<open>argmin\<close> and \<open>argmax\<close> give the first position of the least and of the greatest
  element and raise on an empty array; \<open>argsort\<close> gives the positions in ascending
  order of the elements (equal elements in their order; numpy leaves their order
  open).
\<close>

definition argmin :: "rat list \<Rightarrow> error + nat" where
  "argmin xs =
     (if xs = [] then Inl (ValueError ''attempt to get argmin of an empty sequence'')
      else Inr (index_of xs (Min (set xs))))"

definition argmax :: "rat list \<Rightarrow> error + nat" where
  "argmax xs =
     (if xs = [] then Inl (ValueError ''attempt to get argmax of an empty sequence'')
      else Inr (index_of xs (Max (set xs))))"

definition argsort :: "rat list \<Rightarrow> nat list" where
  "argsort xs = map snd (sort_key fst (zip xs [0..<length xs]))"

text \<open>
  The reductions along the time axis, for every column: \<open>var.mean("time")\<close>,
  \<open>var.median("time")\<close>, \<open>var.min("time")\<close>, \<open>var.max("time")\<close>. Over no timestamp at
  all the least and the greatest element do not exist (numpy raises), and mean and
  median are NaN, for which exact numbers have no value: the model stops there with
  \<open>NanResult\<close>.
\<close>

definition median :: "rat list \<Rightarrow> rat" where
  "median xs =
     (let s = sort xs; n = length s
      in if odd n then s ! (n div 2) else (s ! (n div 2 - 1) + s ! (n div 2)) / 2)"

definition reduce_time ::
  "(rat list \<Rightarrow> rat) \<Rightarrow> error \<Rightarrow> nat \<Rightarrow> rat list list \<Rightarrow> error + rat list" where
  "reduce_time f on_empty P rs =
     (if rs = [] then Inl on_empty else Inr (map (\<lambda>p. f (column rs p)) [0..<P]))"

text \<open>
  What numpy and the \<open>re\<close> module do for \<open>quantile(q)\<close>: reading \<open>q\<close> from the name of
  the statistic (nothing when the pattern does not match) and the quantile of a column.
\<close>

record quantile_externals =
  read_q :: "string \<Rightarrow> rat option"
  np_quantile :: "rat \<Rightarrow> rat list \<Rightarrow> rat"

text \<open>
  Lines 819 to 853: the values of one statistic. \<open>var\<close> is the variable after the
  month selection (\<open>rs\<close>, its rows); \<open>yt\<close> holds the year totals when they were
  computed, which is whenever \<open>median\<close>, \<open>min\<close> or \<open>max\<close> comes with a window.
\<close>

definition stat_values ::
  "quantile_externals \<Rightarrow> time_stats_spec \<Rightarrow> year_totals \<Rightarrow> nat \<Rightarrow> rat list list \<Rightarrow>
     string \<Rightarrow> error + rat list" where
  "stat_values ext spec yt P rs tstats =
     (if tstats = ''mean'' then reduce_time mean NanResult P rs
      else if tstats = ''median'' then
        (if has_window spec then
           (let size = length (wvar_year_total yt)
            in if size div 2 < size
               then Inr (var_mean yt ! (argsort (wvar_year_total yt) ! (size div 2)))
               else Inl IndexError)
         else reduce_time median NanResult P rs)
      else if tstats = ''min'' then
        (if has_window spec then
           (case argmin (wvar_year_total yt) of
              Inl e \<Rightarrow> Inl e
            | Inr i \<Rightarrow> Inr (var_mean yt ! i))
         else reduce_time (\<lambda>xs. Min (set xs))
                (ValueError ''zero-size array to reduction operation'') P rs)
      else if tstats = ''max'' then
        (if has_window spec then
           (case argmax (wvar_year_total yt) of
              Inl e \<Rightarrow> Inl e
            | Inr i \<Rightarrow> Inr (var_mean yt ! i))
         else reduce_time (\<lambda>xs. Max (set xs))
                (ValueError ''zero-size array to reduction operation'') P rs)
      else if take 9 tstats = ''quantile('' then
        (case read_q ext tstats of
           None \<Rightarrow> Inl (ValueError ''error reading'')
         | Some q \<Rightarrow> reduce_time (np_quantile ext q) NanResult P rs)
      else Inl (ValueError ''unhandled time stats''))"

text \<open>
  The loop over the statistics: the values of each are projected with
  \<open>array_from_values\<close> (the index is the object's \<open>poly_idx\<close>, which the catchments
  were selected by) and stored under the name; the first exception ends the call.
\<close>

fun stats_loop ::
  "'k GridPolyConv \<Rightarrow> quantile_externals \<Rightarrow> time_stats_spec \<Rightarrow> year_totals \<Rightarrow> nat \<Rightarrow>
     rat list list \<Rightarrow> rat \<Rightarrow> bool \<Rightarrow> string list \<Rightarrow>
     (string option \<times> masked_array) list \<Rightarrow> error + (string option \<times> masked_array) list" where
  "stats_loop self ext spec yt P rs fill enforce1d [] ret = Inr ret"
| "stats_loop self ext spec yt P rs fill enforce1d (tstats # rest) ret =
     (case stat_values ext spec yt P rs tstats of
        Inl e \<Rightarrow> Inl e
      | Inr vals \<Rightarrow>
          (case array_from_values self (poly_idx self)
                  \<lparr>shape = [length vals], data = vals\<rparr> fill enforce1d of
             Inl e \<Rightarrow> Inl e
           | Inr ar \<Rightarrow>
               stats_loop self ext spec yt P rs fill enforce1d rest
                 (update_entry (Some tstats) ar ret)))"

text \<open>
  Lines 753 to 865 of \<open>array_from_netcdf\<close>: the dict of the results, as the list of
  its entries. Without a time axis, or with \<open>time_stats=None\<close>, the values are
  projected as they are, under the key None.
\<close>

definition array_from_netcdf ::
  "'k GridPolyConv \<Rightarrow> quantile_externals \<Rightarrow> variable \<Rightarrow> time_stats_spec option \<Rightarrow>
     rat \<Rightarrow> bool \<Rightarrow> error + (string option \<times> masked_array) list" where
  "array_from_netcdf self ext v time_stats fill enforce1d =
     (case (v, time_stats) of
        (WithTime time var, Some spec) \<Rightarrow>
          (let sel = month_sel (start_month spec) (end_month spec) (map snd time);
               has_partial_month_sel = \<not> list_all (\<lambda>b. b) sel;
               P = shape var ! 1
           in case (if (\<exists>s \<in> set (time_stats_l spec). s \<in> {''min'', ''max'', ''median''})
                        \<and> has_window spec
                    then year_statistics self spec time var
                    else Inr \<lparr>years = [], var_mean = [], wvar_year_total = []\<rparr>) of
                Inl e \<Rightarrow> Inl e
              | Inr yt \<Rightarrow>
                  (let rs = (if has_partial_month_sel
                             then map fst (filter snd (zip (rows var) sel))
                             else rows var)
                   in stats_loop self ext spec yt P rs fill enforce1d (time_stats_l spec) []))
      | (WithTime time var, None) \<Rightarrow>
          (case array_from_values self (poly_idx self) var fill enforce1d of
             Inl e \<Rightarrow> Inl e
           | Inr ar \<Rightarrow> Inr [(None, ar)])
      | (NoTime vals, _) \<Rightarrow>
          (case array_from_values self (poly_idx self) vals fill enforce1d of
             Inl e \<Rightarrow> Inl e
           | Inr ar \<Rightarrow> Inr [(None, ar)]))"

text \<open>
  Stated from the claim about the window years, to compare the labels of the source
  with: a timestamp is in the window when its month is selected, and its window year
  is its year, or the year before for the months before the start of a wrapping window.
\<close>

definition in_window :: "time_stats_spec \<Rightarrow> int \<times> int \<Rightarrow> bool" where
  "in_window spec t =
     (let n = end_month spec - start_month spec + 1
      in n mod 12 = 0 \<or>
         (if start_month spec > end_month spec
          then snd t \<ge> start_month spec \<or> snd t \<le> end_month spec
          else snd t \<ge> start_month spec \<and> snd t \<le> end_month spec))"

definition window_year :: "time_stats_spec \<Rightarrow> int \<times> int \<Rightarrow> int" where
  "window_year spec t =
     (if start_month spec > end_month spec \<and> snd t < start_month spec
      then fst t - 1 else fst t)"

section \<open>Weights built by the constructor\<close>
















section \<open>Equality ignores the overlap counts\<close>

text \<open>
  C10. For two \<open>GridPolyConv\<close> objects with equal \<open>poly_idx\<close> and array-equal \<open>idx_ar\<close>,
  \<open>__eq__\<close> returns True whatever their \<open>ar_count\<close> attributes are.
\<close>

theorem eq_ignores_ar_count:
  assumes "poly_idx a = poly_idx b"
    and "assert_array_equal (idx_ar a) (idx_ar b)"
  shows "GridPolyConv_eq a (GridPolyConvObj b) = True"
  using assms by simp

theorem eq_ignores_ar_count_witness:
  "GridPolyConv_eq
     \<lparr>poly_idx = [10::int], idx_ar = \<lparr>shape = [1, 1, 1], data = [1]\<rparr>,
      ar_count = Some \<lparr>shape = [1, 1, 1], data = [3]\<rparr>,
      weight = Some \<lparr>shape = [1, 1, 1], data = [1]\<rparr>,
      mask_ar = \<lparr>shape = [1, 1], data = [False]\<rparr>\<rparr>
     (GridPolyConvObj
       \<lparr>poly_idx = [10], idx_ar = \<lparr>shape = [1, 1, 1], data = [1]\<rparr>,
        ar_count = None, weight = None,
        mask_ar = \<lparr>shape = [1, 1], data = [False]\<rparr>\<rparr>) = True"
  by (rule eq_ignores_ar_count) (simp_all add: assert_array_equal_def)

section \<open>The pickle round trip\<close>


lemma init_again:
  assumes "GridPolyConv_init p idx cnt = Inr x"
  shows "GridPolyConv_init (poly_idx x) (idx_ar x) (ar_count x) = Inr x"
  using assms
  by (auto simp: GridPolyConv_init_def split: if_splits option.splits sum.splits)

lemma map_of_update_entry:
  "map_of (update_entry k v es) = (map_of es)(k \<mapsto> v)"
  by (induction es) (auto simp: fun_eq_iff)

lemma put_file_lookup:
  assumes "can_open_wb fs p"
  shows "lookup_file (put_file fs p content) p = Some (RegularFile content)"
  using assms
  by (auto simp: can_open_wb_def put_file_def lookup_file_def map_of_update_entry
      split: option.splits)

text \<open>
  C9. For every conversion object \<open>x\<close> the constructor returns, every path at which a
  file can be opened for writing and a \<open>pickle.dump\<close> that writes \<open>x\<close>: \<open>to_pickle\<close>
  succeeds, and \<open>from_pickle\<close> on the file system it leaves returns a conversion
  object with the same \<open>poly_idx\<close>, an \<open>idx_ar\<close> equal element for element and the
  same \<open>ar_count\<close> (both None, or equal arrays); it is in fact equal to \<open>x\<close> in every
  attribute, and so is \<open>__setstate__\<close> of \<open>__getstate__\<close>.
\<close>

theorem pickle_roundtrip:
  assumes built: "GridPolyConv_init p idx cnt = Inr x"
    and writable: "can_open_wb fs path"
    and dumps: "dmp x = Dumped"
  shows "\<exists>fs' y. to_pickle dmp x path fs = (Inr (), fs') \<and>
           from_pickle fs' path = Inr (GridPolyConvObj y) \<and>
           setstate (getstate x) = Inr y \<and>
           poly_idx y = poly_idx x \<and>
           assert_array_equal (idx_ar y) (idx_ar x) \<and>
           (case (ar_count y, ar_count x) of
              (None, None) \<Rightarrow> True
            | (Some a, Some b) \<Rightarrow> assert_array_equal a b
            | _ \<Rightarrow> False) \<and>
           y = x"
proof -
  let ?fs' = "put_file fs path (Pickle (getstate x))"
  have again: "setstate (getstate x) = Inr x"
    using init_again[OF built] by (simp add: setstate_def getstate_def)
  have stored: "to_pickle dmp x path fs = (Inr (), ?fs')"
    using writable dumps by (simp add: to_pickle_def dump_to_file_def)
  have "lookup_file ?fs' path = Some (RegularFile (Pickle (getstate x)))"
    using writable by (simp add: put_file_lookup)
  then have loaded: "from_pickle ?fs' path = Inr (GridPolyConvObj x)"
    using again by (simp add: from_pickle_def open_rb_def pickle_load_def)
  have same: "(case (ar_count x, ar_count x) of
              (None, None) \<Rightarrow> True
            | (Some a, Some b) \<Rightarrow> assert_array_equal a b
            | _ \<Rightarrow> False)"
    by (simp add: assert_array_equal_def split: option.splits)
  show ?thesis
    using stored loaded again same
    by (intro exI[of _ ?fs'] exI[of _ x]) (simp add: assert_array_equal_def)
qed

theorem pickle_roundtrip_witness:
  "to_pickle (\<lambda>obj. Dumped)
     \<lparr>poly_idx = [10::int, 20], idx_ar = \<lparr>shape = [2, 1, 2], data = [1, 0, 2, 0]\<rparr>,
      ar_count = Some \<lparr>shape = [2, 1, 2], data = [3, 0, 1, 0]\<rparr>,
      weight = Some \<lparr>shape = [2, 1, 2], data = [3 / 4, 0, 1 / 4, 0]\<rparr>,
      mask_ar = \<lparr>shape = [1, 2], data = [False, True]\<rparr>\<rparr>
     (''.'', ''x.gpc'') \<lparr>dirs = [(''.'', [])], readonly = []\<rparr> =
     (Inr (),
      \<lparr>dirs = [(''.'', [(''x.gpc'', RegularFile (Pickle
          \<lparr>st_poly_idx = [10::int, 20],
           st_idx_ar = \<lparr>shape = [2, 1, 2], data = [1, 0, 2, 0]\<rparr>,
           st_ar_count = Some \<lparr>shape = [2, 1, 2], data = [3, 0, 1, 0]\<rparr>\<rparr>))])],
       readonly = []\<rparr>) \<and>
   from_pickle
     \<lparr>dirs = [(''.'', [(''x.gpc'', RegularFile (Pickle
         \<lparr>st_poly_idx = [10::int, 20],
          st_idx_ar = \<lparr>shape = [2, 1, 2], data = [1, 0, 2, 0]\<rparr>,
          st_ar_count = Some \<lparr>shape = [2, 1, 2], data = [3, 0, 1, 0]\<rparr>\<rparr>))])],
      readonly = []\<rparr> (''.'', ''x.gpc'') =
     Inr (GridPolyConvObj
       \<lparr>poly_idx = [10, 20], idx_ar = \<lparr>shape = [2, 1, 2], data = [1, 0, 2, 0]\<rparr>,
        ar_count = Some \<lparr>shape = [2, 1, 2], data = [3, 0, 1, 0]\<rparr>,
        weight = Some \<lparr>shape = [2, 1, 2], data = [3 / 4, 0, 1 / 4, 0]\<rparr>,
        mask_ar = \<lparr>shape = [1, 2], data = [False, True]\<rparr>\<rparr>)"
proof -
  let ?idx = "\<lparr>shape = [2, 1, 2], data = [1, 0, 2, 0 :: int]\<rparr>"
  let ?cnt = "\<lparr>shape = [2, 1, 2], data = [3, 0, 1, 0 :: int]\<rparr>"
  let ?x = "\<lparr>poly_idx = [10::int, 20], idx_ar = ?idx, ar_count = Some ?cnt,
          weight = Some \<lparr>shape = [2, 1, 2], data = [3 / 4, 0, 1 / 4, 0]\<rparr>,
          mask_ar = \<lparr>shape = [1, 2], data = [False, True]\<rparr>\<rparr>"
  let ?fs = "\<lparr>dirs = [(''.'', [])], readonly = []\<rparr> :: int filesystem"
  let ?fs' = "\<lparr>dirs = [(''.'', [(''x.gpc'', RegularFile (Pickle (getstate ?x)))])],
      readonly = []\<rparr>"
  have up: "[0..<4] = [0, 1, 2, 3]" "[0..<2] = [0, 1]"
    by (simp_all add: upt_rec)
  have built: "GridPolyConv_init [10::int, 20] ?idx (Some ?cnt) = Inr ?x"
    by (simp add: GridPolyConv_init_def ndim_def first_slice_def eq_zero_def
        init_weight_def sum0_def nonzero_divide_def Let_def up)
  have writable: "can_open_wb ?fs (''.'', ''x.gpc'')"
    by (simp add: can_open_wb_def)
  have stored: "to_pickle (\<lambda>obj. Dumped) ?x (''.'', ''x.gpc'') ?fs = (Inr (), ?fs')"
    by (simp add: to_pickle_def dump_to_file_def can_open_wb_def put_file_def)
  from pickle_roundtrip[OF built writable, of "\<lambda>obj. Dumped"]
  obtain fs' y where "to_pickle (\<lambda>obj. Dumped) ?x (''.'', ''x.gpc'') ?fs = (Inr (), fs')"
    and "from_pickle fs' (''.'', ''x.gpc'') = Inr (GridPolyConvObj y)" and "y = ?x"
    by auto
  then have "from_pickle ?fs' (''.'', ''x.gpc'') = Inr (GridPolyConvObj ?x)"
    using stored by simp
  then show ?thesis
    using stored by (simp add: getstate_def)
qed
section \<open>Searching a directory for the cache file\<close>

lemma find_cache_exact:
  assumes "map_of (dirs fs) dirname = Some entries" "fname \<in> set (list_dir entries)"
  shows "find_cache fs caching dirname fname = Some (dirname, fname)"
  using assms by (auto simp: find_cache_def)

lemma find_cache_prefix:
  assumes dir: "map_of (dirs fs) dirname = Some entries"
    and noexact: "fname \<notin> set (list_dir entries)"
    and f: "f \<in> set (list_dir entries)" "take 9 f = take 9 fname"
  shows "\<exists>g \<in> set (list_dir entries).
           take 9 g = take 9 fname \<and> find_cache fs 1 dirname fname = Some (dirname, g)"
proof -
  let ?part = "filter (\<lambda>f. take 9 f = take 9 fname) (list_dir entries)"
  have "f \<in> set ?part" using f by simp
  then obtain g gs where p: "?part = g # gs" by (cases ?part) auto
  then have "g \<in> set ?part" by simp
  then have g: "g \<in> set (list_dir entries)" "take 9 g = take 9 fname" by auto
  have "list_dir entries \<noteq> []" using f(1) by auto
  then have "find_cache fs 1 dirname fname = Some (dirname, g)"
    using dir noexact p by (simp add: find_cache_def Let_def)
  then show ?thesis using g by blast
qed

lemma find_cache_no_prefix:
  assumes "map_of (dirs fs) dirname = Some entries"
    and "fname \<notin> set (list_dir entries)"
    and "\<forall>f \<in> set (list_dir entries). take 9 f \<noteq> take 9 fname"
  shows "find_cache fs caching dirname fname = None"
proof -
  have "filter (\<lambda>f. take 9 f = take 9 fname) (list_dir entries) = []"
    using assms(3) by (simp add: filter_empty_conv)
  then show ?thesis
    using assms(1,2) by (simp add: find_cache_def Let_def)
qed

lemma find_cache_strict:
  assumes "map_of (dirs fs) dirname = Some entries" "caching \<noteq> 1"
    and "fname \<notin> set (list_dir entries)"
  shows "find_cache fs caching dirname fname = None"
  using assms by (simp add: find_cache_def)

lemma rfind_append:
  "rfind ch (xs @ ys) =
     (case rfind ch ys of Some i \<Rightarrow> Some (length xs + i) | None \<Rightarrow> rfind ch xs)"
  by (induction xs) (auto split: option.splits)

lemma suffix_gpc: "pathlib_suffix (CHR ''c'' # ds @ ''.gpc'') = ''.gpc''"
proof -
  have "rfind CHR ''.'' (CHR ''c'' # ds @ ''.gpc'') = Some (Suc (length ds))"
    using rfind_append[of "CHR ''.''" "CHR ''c'' # ds" "''.gpc''"] by simp
  then show ?thesis by (simp add: pathlib_suffix_def)
qed

lemma generated_name:
  "\<exists>ds. generate_cached_fname d s = CHR ''c'' # ds @ ''.gpc''"
  by (cases s) (simp_all add: generate_cached_fname_def)

lemma generated_in_list_dir:
  assumes "(generate_cached_fname d s, RegularFile content) \<in> set entries"
  shows "generate_cached_fname d s \<in> set (list_dir entries)"
proof -
  obtain ds where n: "generate_cached_fname d s = CHR ''c'' # ds @ ''.gpc''"
    using generated_name by blast
  have "pathlib_suffix (generate_cached_fname d s) = ''.gpc''"
    unfolding n by (rule suffix_gpc)
  moreover have "take 1 (generate_cached_fname d s) = ''c''"
    unfolding n by simp
  ultimately show ?thesis
    using assms by (force simp: list_dir_def is_file_def)
qed

text \<open>
  C5. In a directory with entries \<open>entries\<close>, whose cache files are \<open>list_dir entries\<close>
  (the regular files named \<open>c....gpc\<close>):
  \<^item> a cache file with exactly the name searched for is returned, at either caching
    level; a regular file with the name \<open>generate_cached_fname\<close> computes is such a file;
  \<^item> at level 1 (the cheap fingerprint), without an exact match, when some cache file
    agrees with the name on the first 9 characters, such a file is returned;
  \<^item> at level 1 without an exact or a prefix match, and at level 2 (the strict
    fingerprint) without an exact match, nothing is returned.
\<close>

theorem find_cache_policy:
  assumes dir: "map_of (dirs fs) dirname = Some entries"
  shows "(fname \<in> set (list_dir entries) \<longrightarrow>
            find_cache fs caching dirname fname = Some (dirname, fname)) \<and>
         ((generate_cached_fname d s, RegularFile content) \<in> set entries \<longrightarrow>
            find_cache fs caching dirname (generate_cached_fname d s) =
              Some (dirname, generate_cached_fname d s)) \<and>
         (caching = 1 \<and> fname \<notin> set (list_dir entries) \<and>
          (\<exists>f \<in> set (list_dir entries). take 9 f = take 9 fname) \<longrightarrow>
            (\<exists>g \<in> set (list_dir entries).
               take 9 g = take 9 fname \<and>
               find_cache fs caching dirname fname = Some (dirname, g))) \<and>
         (caching = 1 \<and> fname \<notin> set (list_dir entries) \<and>
          (\<forall>f \<in> set (list_dir entries). take 9 f \<noteq> take 9 fname) \<longrightarrow>
            find_cache fs caching dirname fname = None) \<and>
         (caching = 2 \<and> fname \<notin> set (list_dir entries) \<longrightarrow>
            find_cache fs caching dirname fname = None)"
proof (intro conjI impI)
  assume "fname \<in> set (list_dir entries)"
  then show "find_cache fs caching dirname fname = Some (dirname, fname)"
    by (rule find_cache_exact[OF dir])
next
  assume "(generate_cached_fname d s, RegularFile content) \<in> set entries"
  then have "generate_cached_fname d s \<in> set (list_dir entries)"
    by (rule generated_in_list_dir)
  then show "find_cache fs caching dirname (generate_cached_fname d s) =
      Some (dirname, generate_cached_fname d s)"
    by (rule find_cache_exact[OF dir])
next
  assume a: "caching = 1 \<and> fname \<notin> set (list_dir entries) \<and>
          (\<exists>f \<in> set (list_dir entries). take 9 f = take 9 fname)"
  then obtain f where f: "f \<in> set (list_dir entries)" "take 9 f = take 9 fname"
    by (elim conjE bexE)
  from a have c: "caching = 1" and n: "fname \<notin> set (list_dir entries)"
    by simp_all
  show "\<exists>g \<in> set (list_dir entries).
      take 9 g = take 9 fname \<and> find_cache fs caching dirname fname = Some (dirname, g)"
    unfolding c by (rule find_cache_prefix[OF dir n f])
next
  assume a: "caching = 1 \<and> fname \<notin> set (list_dir entries) \<and>
          (\<forall>f \<in> set (list_dir entries). take 9 f \<noteq> take 9 fname)"
  then have n: "fname \<notin> set (list_dir entries)"
    and p: "\<forall>f \<in> set (list_dir entries). take 9 f \<noteq> take 9 fname"
    by simp_all
  show "find_cache fs caching dirname fname = None"
    by (rule find_cache_no_prefix[OF dir n p])
next
  assume a: "caching = 2 \<and> fname \<notin> set (list_dir entries)"
  then have c: "caching \<noteq> 1" and n: "fname \<notin> set (list_dir entries)"
    by simp_all
  show "find_cache fs caching dirname fname = None"
    by (rule find_cache_strict[OF dir c n])
qed

theorem find_cache_policy_witness:
  "list_dir [(''c12345678abcdefab.gpc'', RegularFile Garbage),
             (''notes.txt'', RegularFile (Garbage :: int file_content))] =
     [''c12345678abcdefab.gpc''] \<and>
   find_cache
     \<lparr>dirs = [(''.'', [(''c12345678abcdefab.gpc'', RegularFile Garbage),
                        (''notes.txt'', RegularFile (Garbage :: int file_content))])],
      readonly = []\<rparr> 1 ''.'' ''c12345678.gpc'' = Some (''.'', ''c12345678abcdefab.gpc'') \<and>
   find_cache
     \<lparr>dirs = [(''.'', [(''c12345678abcdefab.gpc'', RegularFile Garbage),
                        (''notes.txt'', RegularFile (Garbage :: int file_content))])],
      readonly = []\<rparr> 2 ''.'' ''c12345678.gpc'' = None \<and>
   find_cache
     \<lparr>dirs = [(''.'', [(''c12345678abcdefab.gpc'', RegularFile Garbage),
                        (''notes.txt'', RegularFile (Garbage :: int file_content))])],
      readonly = []\<rparr> 2 ''.'' ''c12345678abcdefab.gpc'' =
     Some (''.'', ''c12345678abcdefab.gpc'')"
proof -
  let ?entries = "[(''c12345678abcdefab.gpc'', RegularFile Garbage),
                   (''notes.txt'', RegularFile (Garbage :: int file_content))]"
  let ?fs = "\<lparr>dirs = [(''.'', ?entries)], readonly = []\<rparr>"
  have dir: "map_of (dirs ?fs) ''.'' = Some ?entries"
    by simp
  have ld: "list_dir ?entries = [''c12345678abcdefab.gpc'']"
    by (simp add: list_dir_def is_file_def pathlib_suffix_def)
  have cheap: "find_cache ?fs 1 ''.'' ''c12345678.gpc'' = Some (''.'', ''c12345678abcdefab.gpc'')"
    using find_cache_policy[OF dir, of "''c12345678.gpc''" 1] ld by simp
  have strict: "find_cache ?fs 2 ''.'' ''c12345678.gpc'' = None"
    using find_cache_policy[OF dir, of "''c12345678.gpc''" 2] ld by simp
  have exact: "find_cache ?fs 2 ''.'' ''c12345678abcdefab.gpc'' =
      Some (''.'', ''c12345678abcdefab.gpc'')"
    using find_cache_policy[OF dir, of "''c12345678abcdefab.gpc''" 2] ld by simp
  show ?thesis
    using ld cheap strict exact by simp
qed

section \<open>Storing the cache file\<close>


lemma read_cache_builds:
  "read_cache cache_path fs = CacheMiss fs1 \<longleftrightarrow>
     cache_path = None \<and> fs1 = fs \<or>
     (\<exists>p e. cache_path = Some p \<and> load_cache fs p = Inl e \<and> os_remove fs p = Inr fs1)"
  by (auto simp: read_cache_def split: option.splits sum.splits)








section \<open>Reading a cache file that does not unpickle\<close>

lemma os_remove_lookup:
  assumes "os_remove fs p = Inr fs'"
  shows "lookup_file fs' p = None"
proof -
  have "map_of (delete_entry k es) k = None" for k :: string and es :: "(string \<times> 'k node) list"
    by (induction es) (auto simp: delete_entry_def)
  then show ?thesis
    using assms
    by (auto simp: os_remove_def lookup_file_def map_of_update_entry
        split: option.splits if_splits node.splits)
qed

text \<open>
  On a cache hit whose file does not load: when \<open>os.remove\<close> succeeds the file is
  gone and the call goes on as on a miss, building from the polygon source on the
  file system without the file; when \<open>os.remove\<close> raises, its exception ends the call.
\<close>

lemma corrupt_cache_rebuilt:
  assumes args: "1 \<le> refine" "refine > 1 \<longrightarrow> 1 \<le> max_levels" "caching = 1 \<or> caching = 2"
    and feats: "features ext = Inr vals" "vals \<noteq> []"
    and fname: "fname = generate_cached_fname (digest ext)
                  (if caching = 1 then None else Some (shapes_digest ext))"
    and hit: "lookup_cache ext caching fname fs = Inr (Some p)"
    and corrupt: "load_cache fs p = Inl e"
  shows "(\<forall>fs1. os_remove fs p = Inr fs1 \<longrightarrow>
            lookup_file fs1 p = None \<and>
            from_grid_vector ext refine max_levels caching fs =
              (case build ext (sorted_list_of_set (set vals)) of
                 Inl e' \<Rightarrow> (Inl e', fs1)
               | Inr obj \<Rightarrow> store_cache ext obj fname fs1)) \<and>
         (\<forall>e'. os_remove fs p = Inl e' \<longrightarrow>
            from_grid_vector ext refine max_levels caching fs = (Inl e', fs))"
proof -
  have r: "(refine < 1) = False" "(refine > 1 \<and> max_levels < 1) = False"
    using args(1,2) by auto
  have c: "(caching \<noteq> 0) = True" "(caching \<noteq> 1 \<and> caching \<noteq> 2) = False"
    using args(3) by auto
  have l: "lookup_cache ext caching (generate_cached_fname (digest ext)
             (if caching = 1 then None else Some (shapes_digest ext))) fs = Inr (Some p)"
    using hit by (simp only: fname)
  have eq: "from_grid_vector ext refine max_levels caching fs =
          (case os_remove fs p of
             Inl e' \<Rightarrow> (Inl e', fs)
           | Inr fs1 \<Rightarrow>
               (case build ext (sorted_list_of_set (set vals)) of
                  Inl e' \<Rightarrow> (Inl e', fs1)
                | Inr obj \<Rightarrow> store_cache ext obj fname fs1))"
    unfolding from_grid_vector_def Let_def
    by (simp add: r c feats l corrupt read_cache_def fname split: sum.splits)
  show ?thesis
    using eq os_remove_lookup[of fs p] by simp
qed

text \<open>
  C8 at a failing input: the cache file found in the read-only directory of the
  vector file does not unpickle; \<open>os.remove\<close> raises \<open>OSError\<close> and the call ends with
  it, the file still there and nothing built.
\<close>

theorem corrupt_cache_in_readonly_dir:
  "from_grid_vector
     \<lparr>GRID_CACHE_DIR = None, vector_dir = ''shp'', features = Inr [20::int, 10, 20],
      digest = ''0123456789abcdef'', shapes_digest = ''fedcba9876543210'',
      digitized = (\<lparr>shape = [1, 2], data = [1, 2]\<rparr>, None),
      pickle_dump = (\<lambda>obj. Dumped)\<rparr>
     1 5 1
     \<lparr>dirs = [(''shp'', [(''c01234567.gpc'', RegularFile Garbage)]), (''.'', [])],
      readonly = [''shp'']\<rparr> =
   (Inl OSError,
    \<lparr>dirs = [(''shp'', [(''c01234567.gpc'', RegularFile Garbage)]), (''.'', [])],
      readonly = [''shp'']\<rparr>)"
proof -
  let ?ext = "\<lparr>GRID_CACHE_DIR = None, vector_dir = ''shp'',
      features = Inr [20::int, 10, 20],
      digest = ''0123456789abcdef'', shapes_digest = ''fedcba9876543210'',
      digitized = (\<lparr>shape = [1, 2], data = [1, 2]\<rparr>, None),
      pickle_dump = (\<lambda>obj. Dumped)\<rparr>"
  let ?fs = "\<lparr>dirs = [(''shp'', [(''c01234567.gpc'', RegularFile Garbage)]), (''.'', [])],
      readonly = [''shp'']\<rparr> :: int filesystem"
  have args: "(1::int) \<le> 1" "(1::int) > 1 \<longrightarrow> (1::int) \<le> 5" "(1::int) = 1 \<or> (1::int) = 2"
    by simp_all
  have feats: "features ?ext = Inr [20, 10, 20]" "[20::int, 10, 20] \<noteq> []"
    by simp_all
  have fname: "''c01234567.gpc'' = generate_cached_fname (digest ?ext)
                  (if (1::int) = 1 then None else Some (shapes_digest ?ext))"
    by (simp add: generate_cached_fname_def)
  have hit: "lookup_cache ?ext 1 ''c01234567.gpc'' ?fs = Inr (Some (''shp'', ''c01234567.gpc''))"
    by (simp add: lookup_cache_def cache_grid_dir_def find_cache_def list_dir_def
        is_file_def pathlib_suffix_def)
  have corrupt: "load_cache ?fs (''shp'', ''c01234567.gpc'') = Inl OtherException"
    by (simp add: load_cache_def open_rb_def lookup_file_def pickle_load_def)
  have remove: "os_remove ?fs (''shp'', ''c01234567.gpc'') = Inl OSError"
    by (simp add: os_remove_def)
  from corrupt_cache_rebuilt[OF args feats fname hit corrupt] remove
  show ?thesis by blast
qed

section \<open>When projecting values fails\<close>













section \<open>Projecting values with weights\<close>
















section \<open>The month mask\<close>

text \<open>
  C6. With \<open>n = end - start + 1\<close> the length of the window: when \<open>n\<close> is a multiple of
  12 (as for Jan-Dec, and for a wrapping window such as Jul-Jun, where \<open>n = 0\<close>) every
  timestamp is selected; otherwise, when the start month is after the end month the
  mask is \<open>month >= start or month <= end\<close>; otherwise it is
  \<open>month >= start and month <= end\<close>.
\<close>

theorem month_sel_cases:
  "((end_m - start_m + 1) mod 12 = 0 \<longrightarrow>
      month_sel start_m end_m month = map (\<lambda>m. True) month) \<and>
   ((end_m - start_m + 1) mod 12 \<noteq> 0 \<and> start_m > end_m \<longrightarrow>
      month_sel start_m end_m month =
        map (\<lambda>m. m \<ge> start_m \<or> m \<le> end_m) month) \<and>
   ((end_m - start_m + 1) mod 12 \<noteq> 0 \<and> \<not> start_m > end_m \<longrightarrow>
      month_sel start_m end_m month =
        map (\<lambda>m. m \<ge> start_m \<and> m \<le> end_m) month)"
  by (auto simp: month_sel_def Let_def)

theorem month_sel_cases_witness:
  "(6 - 7 + 1) mod 12 = (0::int) \<and>
   month_sel 7 6 [1, 6, 7, 12] = [True, True, True, True] \<and>
   (2 - 11 + 1) mod 12 \<noteq> (0::int) \<and> (11::int) > 2 \<and>
   month_sel 11 2 [1, 2, 3, 10, 11, 12] = [True, True, False, False, True, True] \<and>
   (5 - 3 + 1) mod 12 \<noteq> (0::int) \<and> \<not> (3::int) > 5 \<and>
   month_sel 3 5 [2, 3, 4, 5, 6] = [False, True, True, True, False]"
  using month_sel_cases[of 6 7 "[1, 6, 7, 12]"]
    month_sel_cases[of 2 11 "[1, 2, 3, 10, 11, 12]"]
    month_sel_cases[of 5 3 "[2, 3, 4, 5, 6]"]
  by simp

section \<open>The representative year\<close>

lemma month_sel_in_window:
  "month_sel (start_month spec) (end_month spec) (map snd time) = map (in_window spec) time"
  by (auto simp: month_sel_def in_window_def Let_def)

lemma year_labels_window:
  "year_labels (start_month spec) (end_month spec) time
     (month_sel (start_month spec) (end_month spec) (map snd time)) =
   map (\<lambda>t. if in_window spec t then Some (window_year spec t) else None) time"
proof -
  let ?sel = "map (in_window spec) time"
  have z: "zip time ?sel = map (\<lambda>t. (t, in_window spec t)) time"
    by (induction time) simp_all
  have "year_labels (start_month spec) (end_month spec) time ?sel =
          map (\<lambda>t. if in_window spec t then Some (window_year spec t) else None) time"
    unfolding year_labels_def Let_def z
    by (auto simp: window_year_def list_all_iff)
  then show ?thesis
    by (simp only: month_sel_in_window)
qed

lemma index_of_member:
  assumes "x \<in> set xs"
  shows "index_of xs x < length xs \<and> xs ! index_of xs x = x"
  using assms by (induction xs) auto

lemma argmin_least:
  assumes "argmin xs = Inr i"
  shows "i < length xs \<and> (\<forall>j < length xs. xs ! i \<le> xs ! j)"
proof -
  from assms have ne: "xs \<noteq> []" and i: "i = index_of xs (Min (set xs))"
    by (auto simp: argmin_def split: if_splits)
  have "Min (set xs) \<in> set xs"
    using ne by (intro Min_in) simp_all
  from index_of_member[OF this]
  have "i < length xs" "xs ! i = Min (set xs)"
    using i by simp_all
  then show ?thesis
    by simp
qed

lemma argmax_greatest:
  assumes "argmax xs = Inr i"
  shows "i < length xs \<and> (\<forall>j < length xs. xs ! j \<le> xs ! i)"
proof -
  from assms have ne: "xs \<noteq> []" and i: "i = index_of xs (Max (set xs))"
    by (auto simp: argmax_def split: if_splits)
  have "Max (set xs) \<in> set xs"
    using ne by (intro Max_in) simp_all
  from index_of_member[OF this]
  have "i < length xs" "xs ! i = Max (set xs)"
    using i by simp_all
  then show ?thesis
    by simp
qed

lemma filter_all_prefix:
  assumes "m < length s" "\<forall>j \<le> m. Q (s ! j)"
  shows "m < length (filter Q s)"
proof -
  have "filter Q (take (Suc m) s) = take (Suc m) s"
    using assms by (auto simp: filter_id_conv in_set_conv_nth)
  then have "length (filter Q (take (Suc m) s)) = Suc m"
    using assms(1) by simp
  moreover have "filter Q s = filter Q (take (Suc m) s) @ filter Q (drop (Suc m) s)"
    by (metis append_take_drop_id filter_append)
  ultimately show ?thesis by simp
qed

lemma filter_none_suffix:
  assumes "\<forall>j. m \<le> j \<and> j < length s \<longrightarrow> \<not> Q (s ! j)"
  shows "length (filter Q s) \<le> m"
proof -
  have "filter Q (drop m s) = []"
    using assms by (auto simp: filter_empty_conv in_set_conv_nth)
  moreover have "filter Q s = filter Q (take m s) @ filter Q (drop m s)"
    by (metis append_take_drop_id filter_append)
  ultimately have "length (filter Q s) = length (filter Q (take m s))"
    by simp
  also have "\<dots> \<le> length (take m s)" by (rule length_filter_le)
  also have "\<dots> \<le> m" by simp
  finally show ?thesis .
qed

lemma argsort_rank:
  assumes m: "m < length xs" and i: "i = argsort xs ! m"
  shows "i < length xs"
    and "length (filter (\<lambda>x. x < xs ! i) xs) \<le> m"
    and "m < length (filter (\<lambda>x. x \<le> xs ! i) xs)"
proof -
  let ?ps = "zip xs [0..<length xs]"
  let ?s = "sort_key fst ?ps"
  have ls: "length ?s = length xs" by simp
  have srt: "sorted (map fst ?s)" by (rule sorted_sort_key)
  have "?s ! m \<in> set ?ps"
    using m ls by (metis nth_mem set_sort)
  then obtain j where j: "j < length xs" "?s ! m = (xs ! j, j)"
    by (auto simp: in_set_conv_nth)
  have ij: "i = j"
    using i j(2) m by (simp add: argsort_def)
  show "i < length xs" using ij j(1) by simp
  have key: "fst (?s ! m) = xs ! i" using ij j(2) by simp
  have cnt: "length (filter Q xs) = length (filter (\<lambda>p. Q (fst p)) ?s)" for Q
  proof -
    have "length (filter (\<lambda>p. Q (fst p)) ?s) = length (filter (\<lambda>p. Q (fst p)) ?ps)"
      by (simp add: filter_sort)
    also have "\<dots> = length (map fst (filter (Q \<circ> fst) ?ps))"
      by (simp add: comp_def)
    also have "map fst (filter (Q \<circ> fst) ?ps) = filter Q (map fst ?ps)"
      by (rule filter_map[symmetric])
    also have "map fst ?ps = xs"
      by simp
    finally show ?thesis by simp
  qed
  have le: "fst (?s ! a) \<le> fst (?s ! b)" if "a \<le> b" "b < length xs" for a b
    using sorted_nth_mono[OF srt, of a b] that by simp
  have "length (filter (\<lambda>p. fst p < xs ! i) ?s) \<le> m"
  proof (rule filter_none_suffix, intro allI impI)
    fix b assume "m \<le> b \<and> b < length ?s"
    then have "fst (?s ! m) \<le> fst (?s ! b)" using le by simp
    then show "\<not> fst (?s ! b) < xs ! i" using key by simp
  qed
  then show "length (filter (\<lambda>x. x < xs ! i) xs) \<le> m"
    by (simp add: cnt)
  have "m < length (filter (\<lambda>p. fst p \<le> xs ! i) ?s)"
  proof (rule filter_all_prefix)
    show "m < length ?s" using m by simp
    show "\<forall>a \<le> m. fst (?s ! a) \<le> xs ! i"
      using le m key by metis
  qed
  then show "m < length (filter (\<lambda>x. x \<le> xs ! i) xs)"
    by (simp add: cnt)
qed

lemma stat_values_window:
  assumes w: "has_window spec"
    and v: "stat_values ext spec yt P rs tstats = Inr vals"
    and t: "tstats \<in> {''min'', ''median'', ''max''}"
  shows "\<exists>i < length (wvar_year_total yt).
           vals = var_mean yt ! i \<and>
           (tstats = ''min'' \<longrightarrow>
              (\<forall>j < length (wvar_year_total yt).
                 wvar_year_total yt ! i \<le> wvar_year_total yt ! j)) \<and>
           (tstats = ''max'' \<longrightarrow>
              (\<forall>j < length (wvar_year_total yt).
                 wvar_year_total yt ! j \<le> wvar_year_total yt ! i)) \<and>
           (tstats = ''median'' \<longrightarrow>
              length (filter (\<lambda>x. x < wvar_year_total yt ! i) (wvar_year_total yt))
                \<le> length (wvar_year_total yt) div 2 \<and>
              length (wvar_year_total yt) div 2
                < length (filter (\<lambda>x. x \<le> wvar_year_total yt ! i) (wvar_year_total yt)))"
proof -
  let ?tot = "wvar_year_total yt"
  consider "tstats = ''min''" | "tstats = ''median''" | "tstats = ''max''"
    using t by blast
  then show ?thesis
  proof cases
    case 1
    then obtain i where a: "argmin ?tot = Inr i" and vi: "vals = var_mean yt ! i"
      using v w by (auto simp: stat_values_def split: sum.splits)
    show ?thesis
      using argmin_least[OF a] vi 1 by auto
  next
    case 2
    let ?m = "length ?tot div 2"
    from 2 have m: "?m < length ?tot" and vi: "vals = var_mean yt ! (argsort ?tot ! ?m)"
      using v w by (auto simp: stat_values_def Let_def split: if_splits)
    show ?thesis
      using argsort_rank[OF m refl] vi 2 by auto
  next
    case 3
    then obtain i where a: "argmax ?tot = Inr i" and vi: "vals = var_mean yt ! i"
      using v w by (auto simp: stat_values_def split: sum.splits)
    show ?thesis
      using argmax_greatest[OF a] vi 3 by auto
  qed
qed

lemma stat_values_no_window:
  assumes w: "\<not> has_window spec"
    and v: "stat_values ext spec yt P rs tstats = Inr vals"
  shows "(tstats = ''min'' \<longrightarrow> vals = map (\<lambda>p. Min (set (column rs p))) [0..<P]) \<and>
         (tstats = ''median'' \<longrightarrow> vals = map (\<lambda>p. median (column rs p)) [0..<P]) \<and>
         (tstats = ''max'' \<longrightarrow> vals = map (\<lambda>p. Max (set (column rs p))) [0..<P])"
  using assms by (auto simp: stat_values_def reduce_time_def split: if_splits)

lemma stats_loop_keeps:
  assumes "stats_loop self ext spec yt P rs fill enforce1d stats ret0 = Inr ret"
    and "tstats \<notin> set stats"
  shows "map_of ret (Some tstats) = map_of ret0 (Some tstats)"
  using assms
proof (induction stats arbitrary: ret0)
  case Nil
  then show ?case by simp
next
  case (Cons s stats)
  from Cons.prems(1) obtain vals ar where
    rest: "stats_loop self ext spec yt P rs fill enforce1d stats
             (update_entry (Some s) ar ret0) = Inr ret"
    by (auto split: sum.splits)
  have "map_of ret (Some tstats) = map_of (update_entry (Some s) ar ret0) (Some tstats)"
    using Cons.IH[OF rest] Cons.prems(2) by simp
  then show ?case
    using Cons.prems(2) by (simp add: map_of_update_entry)
qed

lemma stats_loop_entry:
  assumes "stats_loop self ext spec yt P rs fill enforce1d stats ret0 = Inr ret"
    and "tstats \<in> set stats"
  shows "\<exists>vals ar. stat_values ext spec yt P rs tstats = Inr vals \<and>
           array_from_values self (poly_idx self) \<lparr>shape = [length vals], data = vals\<rparr>
             fill enforce1d = Inr ar \<and>
           map_of ret (Some tstats) = Some ar"
  using assms
proof (induction stats arbitrary: ret0)
  case Nil
  then show ?case by simp
next
  case (Cons s stats)
  from Cons.prems(1) obtain vals ar where
    v: "stat_values ext spec yt P rs s = Inr vals"
    and a: "array_from_values self (poly_idx self) \<lparr>shape = [length vals], data = vals\<rparr>
              fill enforce1d = Inr ar"
    and rest: "stats_loop self ext spec yt P rs fill enforce1d stats
                 (update_entry (Some s) ar ret0) = Inr ret"
    by (auto split: sum.splits)
  show ?case
  proof (cases "tstats \<in> set stats")
    case True
    then show ?thesis by (rule Cons.IH[OF rest])
  next
    case False
    then have ts: "tstats = s" using Cons.prems(2) by simp
    have "map_of ret (Some tstats) = map_of (update_entry (Some s) ar ret0) (Some tstats)"
      by (rule stats_loop_keeps[OF rest False])
    then have "map_of ret (Some tstats) = Some ar"
      using ts by (simp add: map_of_update_entry)
    then show ?thesis using v a ts by blast
  qed
qed

lemma year_statistics_fields:
  assumes "year_statistics self spec time var = Inr yt"
  shows "\<exists>wvar. weighted_var self (shape var ! 1) (rows var) = Inr wvar \<and>
           (let year = map (\<lambda>t. if in_window spec t then Some (window_year spec t) else None)
                         time
            in years yt = group_years year \<and>
               var_mean yt =
                 map (\<lambda>y. column_means (shape var ! 1) (group_rows (rows var) year y))
                   (years yt) \<and>
               wvar_year_total yt =
                 map (\<lambda>y. sum_list (column_means (shape var ! 1) (group_rows wvar year y)))
                   (years yt))"
  using assms
  unfolding year_statistics_def Let_def year_labels_window
  by (auto simp: groupby_mean_def comp_def split: sum.splits)

text \<open>
  What the code does for \<open>min\<close>, \<open>median\<close> and \<open>max\<close> when the call returns. With a
  window: the timestamps in the window are grouped by window year; the result of the
  statistic is the projection of the mean row of one year \<open>i\<close>, whose total (the sum
  over the columns of the year's mean weighted row) is a least one for \<open>min\<close>, a
  greatest one for \<open>max\<close>, and for \<open>median\<close> the one at position \<open>size // 2\<close> of the
  totals in ascending order. Without a window: the projection of the least, the
  median and the greatest value of every column over the selected timestamps.
\<close>

lemma representative_year:
  assumes ret: "array_from_netcdf self ext (WithTime time var) (Some spec) fill enforce1d =
                  Inr ret"
    and t: "tstats \<in> set (time_stats_l spec)" "tstats \<in> {''min'', ''median'', ''max''}"
    and w: "has_window spec"
  shows "\<exists>yt i ar.
           year_statistics self spec time var = Inr yt \<and>
           i < length (years yt) \<and>
           map_of ret (Some tstats) = Some ar \<and>
           array_from_values self (poly_idx self)
             \<lparr>shape = [length (var_mean yt ! i)], data = var_mean yt ! i\<rparr> fill enforce1d =
             Inr ar \<and>
           (tstats = ''min'' \<longrightarrow>
              (\<forall>j < length (years yt). wvar_year_total yt ! i \<le> wvar_year_total yt ! j)) \<and>
           (tstats = ''max'' \<longrightarrow>
              (\<forall>j < length (years yt). wvar_year_total yt ! j \<le> wvar_year_total yt ! i)) \<and>
           (tstats = ''median'' \<longrightarrow>
              length (filter (\<lambda>x. x < wvar_year_total yt ! i) (wvar_year_total yt))
                \<le> length (years yt) div 2 \<and>
              length (years yt) div 2
                < length (filter (\<lambda>x. x \<le> wvar_year_total yt ! i) (wvar_year_total yt)))"
proof -
  let ?sel = "month_sel (start_month spec) (end_month spec) (map snd time)"
  let ?rs = "if \<not> list_all (\<lambda>b. b) ?sel then map fst (filter snd (zip (rows var) ?sel))
             else rows var"
  have need: "(\<exists>s \<in> set (time_stats_l spec). s \<in> {''min'', ''max'', ''median''}) \<and>
              has_window spec"
    using t w by blast
  have eq: "array_from_netcdf self ext (WithTime time var) (Some spec) fill enforce1d =
          (case year_statistics self spec time var of
             Inl e \<Rightarrow> Inl e
           | Inr yt \<Rightarrow>
               stats_loop self ext spec yt (shape var ! 1) ?rs fill enforce1d
                 (time_stats_l spec) [])"
    unfolding array_from_netcdf_def Let_def
    by (simp only: need if_True prod.case variable.case option.case simp_thms)
  from ret obtain yt where
    ys: "year_statistics self spec time var = Inr yt"
    and loop: "stats_loop self ext spec yt (shape var ! 1) ?rs fill enforce1d
                 (time_stats_l spec) [] = Inr ret"
    unfolding eq by (cases "year_statistics self spec time var") simp_all
  from stats_loop_entry[OF loop t(1)] obtain vals ar where
    v: "stat_values ext spec yt (shape var ! 1) ?rs tstats = Inr vals"
    and a: "array_from_values self (poly_idx self) \<lparr>shape = [length vals], data = vals\<rparr>
              fill enforce1d = Inr ar"
    and m: "map_of ret (Some tstats) = Some ar"
    by blast
  from year_statistics_fields[OF ys]
  have len: "length (wvar_year_total yt) = length (years yt)"
    by (auto simp: Let_def)
  from stat_values_window[OF w v t(2)] obtain i where
    i: "i < length (wvar_year_total yt)" and vi: "vals = var_mean yt ! i"
    and r: "(tstats = ''min'' \<longrightarrow>
              (\<forall>j < length (wvar_year_total yt).
                 wvar_year_total yt ! i \<le> wvar_year_total yt ! j)) \<and>
           (tstats = ''max'' \<longrightarrow>
              (\<forall>j < length (wvar_year_total yt).
                 wvar_year_total yt ! j \<le> wvar_year_total yt ! i)) \<and>
           (tstats = ''median'' \<longrightarrow>
              length (filter (\<lambda>x. x < wvar_year_total yt ! i) (wvar_year_total yt))
                \<le> length (wvar_year_total yt) div 2 \<and>
              length (wvar_year_total yt) div 2
                < length (filter (\<lambda>x. x \<le> wvar_year_total yt ! i) (wvar_year_total yt)))"
    by blast
  show ?thesis
    using ys i m a r unfolding vi len by blast
qed

text \<open>
  C2 at a failing input: a mapping with weights on two levels and three catchments,
  a series over two water years and \<open>Jul-Jun:min\<close>. The weights of the year totals
  are the two level sums, not one weight for each of the three catchments, and
  multiplying them with the rows of three values raises: no year is ranked and
  nothing is returned.
\<close>

theorem year_weights_per_level:
  "GridPolyConv_init [10::int, 20, 30] \<lparr>shape = [2, 1, 1], data = [1, 2]\<rparr>
       (Some \<lparr>shape = [2, 1, 1], data = [3, 1]\<rparr>) =
     Inr \<lparr>poly_idx = [10, 20, 30], idx_ar = \<lparr>shape = [2, 1, 1], data = [1, 2]\<rparr>,
          ar_count = Some \<lparr>shape = [2, 1, 1], data = [3, 1]\<rparr>,
          weight = Some \<lparr>shape = [2, 1, 1], data = [3 / 4, 1 / 4]\<rparr>,
          mask_ar = \<lparr>shape = [1, 1], data = [False]\<rparr>\<rparr> \<and>
   level_mass \<lparr>shape = [2, 1, 1], data = [3 / 4, 1 / 4]\<rparr> = [3 / 4, 1 / 4] \<and>
   array_from_netcdf
     \<lparr>poly_idx = [10::int, 20, 30], idx_ar = \<lparr>shape = [2, 1, 1], data = [1, 2]\<rparr>,
      ar_count = Some \<lparr>shape = [2, 1, 1], data = [3, 1]\<rparr>,
      weight = Some \<lparr>shape = [2, 1, 1], data = [3 / 4, 1 / 4]\<rparr>,
      mask_ar = \<lparr>shape = [1, 1], data = [False]\<rparr>\<rparr>
     ext
     (WithTime [(2000, 7), (2001, 6), (2001, 7)]
        \<lparr>shape = [3, 3], data = [1, 10, 4, 3, 10, 4, 0, 5, 4]\<rparr>)
     (Some \<lparr>time_window = Some ''Jul-Jun'', time_stats_l = [''min''],
            start_month = 7, end_month = 6\<rparr>) 0 False =
     Inl (ValueError ''operands could not be broadcast together'')"
  by (simp add: GridPolyConv_init_def ndim_def first_slice_def eq_zero_def init_weight_def
      sum0_def true_divide_def nonzero_divide_def array_from_netcdf_def has_window_def
      year_statistics_def weighted_var_def level_mass_def Let_def upt_rec)

end
